theory Spec2Isabelle
  imports Complex_Main "HOL-Library.AList" "HOL-Library.List_Lexorder" "HOL-Library.Char_ord"
begin

section \<open>Chatroom store (chatroom\_manager.py)\<close>

text \<open>
  The chatroom manager keeps one JSON file \<open><id>.json\<close> per chatroom in its chatrooms
  directory.  The directory is modelled as the list of its files in the order in which
  \<open>os.listdir\<close> yields them; a file \<open><id>.json\<close> is represented by the pair of the id
  and the decoded record (\<open>json.dump\<close> followed by \<open>json.load\<close> gives the record back).
  The sub-directories that \<open>create_chatroom\<close> makes for message history carry the bare
  id as their name, fail the \<open>.json\<close> test of every scan and are left out of the list.
  Timestamps are the finite floating point numbers of \<open>time.time()\<close>; only their order
  matters here, so they are modelled as reals.  Generated values (\<open>uuid.uuid4()\<close>,
  \<open>time.time()\<close>) are parameters of the operation that draws them.  Failures of the
  operating system (permissions, full disk) are outside the model.  The operations take
  the id under which the room's file is listed; how an id that a caller writes as a path
  finds its file is added in the subsection on ids as file paths.
\<close>

record message =
  msg_id :: string
  sender :: string
  content :: string
  msg_type :: string
  timestamp :: real
  file_info :: "(string \<times> string) list option"

record chatroom =
  room_id :: string
  name :: string
  creator :: string
  created_at :: real
  members :: "string list"
  messages :: "message list"

type_synonym store = "(string \<times> chatroom) list"

definition chatroom_exists :: "store \<Rightarrow> string \<Rightarrow> bool" where
  "chatroom_exists s chatroom_id = (map_of s chatroom_id \<noteq> None)"

definition get_chatroom :: "store \<Rightarrow> string \<Rightarrow> chatroom option" where
  "get_chatroom s chatroom_id =
     (if \<not> chatroom_exists s chatroom_id then None else map_of s chatroom_id)"

text \<open>
  \<open>open(chatroom_file, 'w')\<close> followed by \<open>json.dump\<close>: an existing file is overwritten
  in place; a new file appears in the listing at a position \<open>pos\<close> that the operating
  system chooses.
\<close>

definition write_chatroom :: "nat \<Rightarrow> string \<Rightarrow> chatroom \<Rightarrow> store \<Rightarrow> store" where
  "write_chatroom pos chatroom_id chatroom_data s =
     (if chatroom_exists s chatroom_id then AList.update chatroom_id chatroom_data s
      else take pos s @ (chatroom_id, chatroom_data) # drop pos s)"

definition create_chatroom ::
  "store \<Rightarrow> string \<Rightarrow> string \<Rightarrow> string list option \<Rightarrow> string \<Rightarrow> real \<Rightarrow> nat
     \<Rightarrow> (bool \<times> string \<times> string) \<times> store" where
  "create_chatroom s nm cr mems new_id now pos =
     (let members0 = (case mems of None \<Rightarrow> [] | Some ms \<Rightarrow> ms);
          members1 = (if cr \<notin> set members0 then members0 @ [cr] else members0);
          chatroom_data = \<lparr>room_id = new_id, name = nm, creator = cr, created_at = now,
                           members = members1, messages = []\<rparr>
      in ((True, ''Chatroom created successfully'', new_id),
          write_chatroom pos new_id chatroom_data s))"

definition add_member :: "store \<Rightarrow> string \<Rightarrow> string \<Rightarrow> (bool \<times> string) \<times> store" where
  "add_member s chatroom_id username =
     (case get_chatroom s chatroom_id of
        None \<Rightarrow> ((False, ''Chatroom does not exist''), s)
      | Some chatroom_data \<Rightarrow>
          if username \<in> set (members chatroom_data)
          then ((False, ''User already a member''), s)
          else ((True, ''Member added successfully''),
                write_chatroom 0 chatroom_id
                  (chatroom_data\<lparr>members := members chatroom_data @ [username]\<rparr>) s))"

definition remove_member :: "store \<Rightarrow> string \<Rightarrow> string \<Rightarrow> (bool \<times> string) \<times> store" where
  "remove_member s chatroom_id username =
     (case get_chatroom s chatroom_id of
        None \<Rightarrow> ((False, ''Chatroom does not exist''), s)
      | Some chatroom_data \<Rightarrow>
          if username \<notin> set (members chatroom_data)
          then ((False, ''User is not a member''), s)
          else if username = creator chatroom_data
          then ((False, ''Cannot remove the creator of the chatroom''), s)
          else ((True, ''Member removed successfully''),
                write_chatroom 0 chatroom_id
                  (chatroom_data\<lparr>members := remove1 username (members chatroom_data)\<rparr>) s))"

text \<open>
  \<open>add_message\<close>: the message id and the timestamp are drawn inside the call.  A
  \<open>file_info\<close> dictionary is attached only for a \<open>"file"\<close> message with a non-empty
  dictionary (Python truthiness).
\<close>

definition add_message ::
  "store \<Rightarrow> string \<Rightarrow> string \<Rightarrow> string \<Rightarrow> string \<Rightarrow> (string \<times> string) list option
     \<Rightarrow> string \<Rightarrow> real \<Rightarrow> (bool \<times> string \<times> message option) \<times> store" where
  "add_message s chatroom_id sndr cont message_type finfo new_id now =
     (case get_chatroom s chatroom_id of
        None \<Rightarrow> ((False, ''Chatroom does not exist'', None), s)
      | Some chatroom_data \<Rightarrow>
          if sndr \<notin> set (members chatroom_data)
          then ((False, ''Only members can send messages'', None), s)
          else
            let message_data = \<lparr>msg_id = new_id, sender = sndr, content = cont,
                   msg_type = message_type, timestamp = now,
                   file_info = (if message_type = ''file'' \<and> finfo \<noteq> None \<and> finfo \<noteq> Some []
                                then finfo else None)\<rparr>
            in ((True, ''Message added successfully'', Some message_data),
                write_chatroom 0 chatroom_id
                  (chatroom_data\<lparr>messages := messages chatroom_data @ [message_data]\<rparr>) s))"

text \<open>
  \<open>xs[:limit]\<close> for a Python integer \<open>limit\<close>: a negative limit counts from the end.
\<close>

definition py_slice_to :: "'a list \<Rightarrow> int \<Rightarrow> 'a list" where
  "py_slice_to xs limit =
     (if 0 \<le> limit then take (nat limit) xs else take (length xs - nat (- limit)) xs)"

text \<open>
  \<open>messages.sort(key=lambda x: x["timestamp"], reverse=True)\<close>: Python's sort is stable
  also when reversed, which it achieves by reversing, sorting stably and reversing again.
\<close>

definition sort_reverse :: "message list \<Rightarrow> message list" where
  "sort_reverse ms = rev (sort_key timestamp (rev ms))"

text \<open>
  \<open>get_messages\<close>: the test \<open>if before_timestamp:\<close> is Python truthiness, so the filter
  runs for a supplied timestamp other than zero.
\<close>

definition get_messages :: "store \<Rightarrow> string \<Rightarrow> int \<Rightarrow> real option \<Rightarrow> message list" where
  "get_messages s chatroom_id limit before_timestamp =
     (case get_chatroom s chatroom_id of
        None \<Rightarrow> []
      | Some chatroom_data \<Rightarrow>
          let msgs = messages chatroom_data;
              msgs1 = (case before_timestamp of
                         None \<Rightarrow> msgs
                       | Some b \<Rightarrow> if b \<noteq> 0 then filter (\<lambda>m. timestamp m < b) msgs else msgs)
          in py_slice_to (sort_reverse msgs1) limit)"

text \<open>
  The scan of \<open>create_direct_message\<close> over the directory listing: the first file whose
  room is a direct-message room of these users decides.
\<close>

fun dm_scan :: "store \<Rightarrow> string list \<Rightarrow> string option" where
  "dm_scan [] users = None"
| "dm_scan ((filename, chatroom_data) # rest) users =
     (if take 3 (name chatroom_data) = ''DM_''
         \<and> set (members chatroom_data) = set users
         \<and> length (members chatroom_data) = 2
      then Some (room_id chatroom_data)
      else dm_scan rest users)"

definition create_direct_message ::
  "store \<Rightarrow> string \<Rightarrow> string \<Rightarrow> string \<Rightarrow> real \<Rightarrow> nat \<Rightarrow> (string option \<times> bool) \<times> store" where
  "create_direct_message s user1 user2 new_id now pos =
     (let users = sort [user1, user2];
          dm_name = ''DM_'' @ users ! 0 @ ''_'' @ users ! 1
      in case dm_scan s users of
           Some found \<Rightarrow> ((Some found, False), s)
         | None \<Rightarrow>
             (case create_chatroom s dm_name (users ! 0) (Some users) new_id now pos of
                ((success, msg, chatroom_id), s') \<Rightarrow>
                  if success then ((Some chatroom_id, True), s') else ((None, False), s')))"

subsection \<open>Ids as file paths\<close>

text \<open>
  A caller's id reaches the directory as the path \<open><dir>/<id>.json\<close>, and the operating
  system decides which file that is.  An id that is a plain file name (no \<open>/\<close>, no NUL
  character, at most 255 bytes together with the suffix, counted in UTF-8) names the
  directory entry \<open><id>.json\<close>, the file that the store lists under this id.  With a NUL
  character in it the path names nothing: \<open>os.path.exists\<close> is false (Python 3.8 and
  later) and \<open>open\<close> raises.  The directory itself holds only the files of the store.
  Any other id gives a path with directory parts (\<open>./r1\<close>, \<open>r1/../r1\<close>, \<open>../users/alice\<close>)
  or an over-long name.  Where such a path leads depends on the directories and links
  around the store and is a parameter \<open>os\<close> of the model, a function of the file name:
  \<open>File_at k\<close> when the path leads to the place of the file that the store lists under \<open>k\<close>
  (a file need not exist there), \<open>Foreign\<close> when it leads to an existing file or directory
  that holds no record of the store, \<open>Unresolved\<close> when it leads nowhere (a directory on
  the way is missing, a name is too long).
\<close>

datatype lookup = Unresolved | File_at string | Foreign

text \<open>
  Exceptions that leave a call: \<open>Bad_path\<close> for the \<open>ValueError\<close> or \<open>OSError\<close> of \<open>open\<close>,
  \<open>Not_a_record\<close> when \<open>json.load\<close> or the access to a field of the record raises.  A call
  that raises has written nothing.
\<close>

datatype error = Bad_path | Not_a_record

definition fs_length :: "string \<Rightarrow> nat" where
  "fs_length file_name =
     length file_name + length (filter (\<lambda>c. 128 \<le> (of_char c :: nat)) file_name)"

definition json_file :: "(string \<Rightarrow> lookup) \<Rightarrow> string \<Rightarrow> lookup" where
  "json_file os stem =
     (let file_name = stem @ ''.json''
      in if CHR 0x00 \<in> set file_name then Unresolved
         else if CHR ''/'' \<notin> set file_name \<and> fs_length file_name \<le> 255 then File_at stem
         else os file_name)"

text \<open>
  \<open>chatroom_exists\<close>, \<open>get_chatroom\<close> and \<open>add_member\<close> as a caller reaches them, for any
  id: the path is looked up, and the operations above act on the file it leads to.
\<close>

definition chatroom_exists_path :: "(string \<Rightarrow> lookup) \<Rightarrow> store \<Rightarrow> string \<Rightarrow> bool" where
  "chatroom_exists_path os s chatroom_id =
     (case json_file os chatroom_id of
        Unresolved \<Rightarrow> False
      | File_at k \<Rightarrow> chatroom_exists s k
      | Foreign \<Rightarrow> True)"

definition get_chatroom_path ::
  "(string \<Rightarrow> lookup) \<Rightarrow> store \<Rightarrow> string \<Rightarrow> error + chatroom option" where
  "get_chatroom_path os s chatroom_id =
     (case json_file os chatroom_id of
        Unresolved \<Rightarrow> Inr None
      | File_at k \<Rightarrow> Inr (get_chatroom s k)
      | Foreign \<Rightarrow> Inl Not_a_record)"

definition add_member_path ::
  "(string \<Rightarrow> lookup) \<Rightarrow> store \<Rightarrow> string \<Rightarrow> string \<Rightarrow> (error + bool \<times> string) \<times> store" where
  "add_member_path os s chatroom_id username =
     (case json_file os chatroom_id of
        Unresolved \<Rightarrow> (Inr (False, ''Chatroom does not exist''), s)
      | File_at k \<Rightarrow> (case add_member s k username of (outcome, s') \<Rightarrow> (Inr outcome, s'))
      | Foreign \<Rightarrow> (Inl Not_a_record, s))"

subsection \<open>Sequences of store operations\<close>

datatype store_op =
    Create_chatroom string string "string list option" string real nat
  | Add_member string string
  | Remove_member string string
  | Add_message string string string string "(string \<times> string) list option" string real
  | Create_direct_message string string string real nat

fun apply_op :: "store \<Rightarrow> store_op \<Rightarrow> store" where
  "apply_op s (Create_chatroom nm cr mems new_id now pos) =
     snd (create_chatroom s nm cr mems new_id now pos)"
| "apply_op s (Add_member chatroom_id username) = snd (add_member s chatroom_id username)"
| "apply_op s (Remove_member chatroom_id username) = snd (remove_member s chatroom_id username)"
| "apply_op s (Add_message chatroom_id sndr cont message_type finfo new_id now) =
     snd (add_message s chatroom_id sndr cont message_type finfo new_id now)"
| "apply_op s (Create_direct_message user1 user2 new_id now pos) =
     snd (create_direct_message s user1 user2 new_id now pos)"

definition run_ops :: "store_op list \<Rightarrow> store" where
  "run_ops ops = foldl apply_op [] ops"

section \<open>Node control channel and response ledger (node\_controller.py)\<close>

text \<open>
  The controller's state: the directory of mailbox files (path to text) and the
  dictionary \<open>self.responses\<close>.  The lock only serialises threads; one call is one step.
\<close>

record response =
  response_content :: string
  response_timestamp :: real

record node_controller =
  nodes_dir :: string
  files :: "string \<rightharpoonup> string"
  responses :: "string \<rightharpoonup> response list"

definition format_node_address :: "string \<Rightarrow> string" where
  "format_node_address node_address =
     map (\<lambda>c. if c = CHR '':'' then CHR ''_'' else c) node_address"

text \<open>\<open>os.path.join\<close> of two components on a POSIX system.\<close>

definition path_join :: "string \<Rightarrow> string \<Rightarrow> string" where
  "path_join a b =
     (if take 1 b = ''/'' then b
      else if a = [] \<or> drop (length a - 1) a = ''/'' then a @ b
      else a @ ''/'' @ b)"

definition in_file :: "node_controller \<Rightarrow> string \<Rightarrow> string" where
  "in_file st node_address = path_join (nodes_dir st) (format_node_address node_address @ ''.in'')"

definition out_file :: "node_controller \<Rightarrow> string \<Rightarrow> string" where
  "out_file st node_address = path_join (nodes_dir st) (format_node_address node_address @ ''.out'')"

text \<open>
  The mailbox files are opened in text mode.  A character of the model is one code point
  of the decoded text, in the range below 256; text that the platform's codec cannot
  decode, and code points from 256 on, are outside the model.  Reading in text mode
  translates the line endings CR LF and CR to LF (universal newlines).  \<open>str.strip()\<close>
  removes leading and trailing whitespace, which in this range is the characters 9 to 13,
  28 to 31, the space, U+0085 and U+00A0.
\<close>

definition is_space :: "char \<Rightarrow> bool" where
  "is_space c = (of_char c \<in> {9, 10, 11, 12, 13, 28, 29, 30, 31, 32, 133, 160 :: nat})"

fun universal_newlines :: "string \<Rightarrow> string" where
  "universal_newlines [] = []"
| "universal_newlines [c] = (if c = CHR 0x0D then [CHR 0x0A] else [c])"
| "universal_newlines (c # d # cs) =
     (if c = CHR 0x0D \<and> d = CHR 0x0A then CHR 0x0A # universal_newlines cs
      else if c = CHR 0x0D then CHR 0x0A # universal_newlines (d # cs)
      else c # universal_newlines (d # cs))"

definition strip :: "string \<Rightarrow> string" where
  "strip s = rev (dropWhile is_space (rev (dropWhile is_space s)))"

definition write_to_node :: "node_controller \<Rightarrow> string \<Rightarrow> string \<Rightarrow> bool \<times> node_controller" where
  "write_to_node st node_address msg =
     (True, st\<lparr>files := (files st)(in_file st node_address \<mapsto> msg)\<rparr>)"

definition read_from_node :: "node_controller \<Rightarrow> string \<Rightarrow> string option \<times> node_controller" where
  "read_from_node st node_address =
     (case files st (out_file st node_address) of
        None \<Rightarrow> (None, st)
      | Some raw \<Rightarrow>
          let cont = strip (universal_newlines raw)
          in if cont \<noteq> [] \<and> cont \<noteq> ''done''
             then (Some cont, st\<lparr>files := (files st)(out_file st node_address \<mapsto> [])\<rparr>)
             else (None, st))"

text \<open>\<open>xs[-100:]\<close>\<close>

definition last_100 :: "'a list \<Rightarrow> 'a list" where
  "last_100 xs = drop (length xs - 100) xs"

definition get_response ::
  "node_controller \<Rightarrow> string \<Rightarrow> real \<Rightarrow> string option \<times> node_controller" where
  "get_response st node_address now =
     (case read_from_node st node_address of
        (None, st1) \<Rightarrow> (None, st1)
      | (Some r, st1) \<Rightarrow>
          if r = [] then (Some r, st1)
          else
            let rs0 = (case responses st1 node_address of None \<Rightarrow> [] | Some rs \<Rightarrow> rs);
                rs1 = rs0 @ [\<lparr>response_content = r, response_timestamp = now\<rparr>];
                rs2 = (if length rs1 > 100 then last_100 rs1 else rs1)
            in (Some r, st1\<lparr>responses := (responses st1)(node_address \<mapsto> rs2)\<rparr>))"

definition get_all_responses :: "node_controller \<Rightarrow> string \<Rightarrow> response list" where
  "get_all_responses st node_address =
     (case responses st node_address of Some rs \<Rightarrow> rs | None \<Rightarrow> [])"

definition clear_responses :: "node_controller \<Rightarrow> string \<Rightarrow> node_controller" where
  "clear_responses st node_address =
     (case responses st node_address of
        Some rs \<Rightarrow> st\<lparr>responses := (responses st)(node_address \<mapsto> [])\<rparr>
      | None \<Rightarrow> st)"

subsection \<open>Traces of the channel\<close>

text \<open>
  The external node process writes a result file; the controller polls.  A trace
  interleaves both for arbitrary addresses.  The run keeps, beside the state, the log of
  what each poll handed to its caller.
\<close>

datatype channel_event =
    Node_writes string string
  | Poll string real

fun channel_step ::
  "node_controller \<times> (string \<times> response) list \<Rightarrow> channel_event
     \<Rightarrow> node_controller \<times> (string \<times> response) list" where
  "channel_step (st, lg) (Node_writes node_address raw) =
     (st\<lparr>files := (files st)(out_file st node_address \<mapsto> raw)\<rparr>, lg)"
| "channel_step (st, lg) (Poll node_address now) =
     (case get_response st node_address now of
        (None, st') \<Rightarrow> (st', lg)
      | (Some r, st') \<Rightarrow>
          (st', lg @ [(node_address, \<lparr>response_content = r, response_timestamp = now\<rparr>)]))"

definition run_channel ::
  "node_controller \<Rightarrow> channel_event list \<Rightarrow> node_controller \<times> (string \<times> response) list" where
  "run_channel st evs = foldl channel_step (st, []) evs"

definition observed :: "(string \<times> response) list \<Rightarrow> string \<Rightarrow> response list" where
  "observed lg node_address = map snd (filter (\<lambda>e. fst e = node_address) lg)"

section \<open>User store (user\_management.py)\<close>

text \<open>
  One file \<open><username>.json\<close> per user; the users directory is a map from the name under
  which a file is listed to the record in it.  A username reaches the directory as the
  path \<open><users_dir>/<username>.json\<close>, looked up as described for chatroom ids.  The
  digest \<open>hashlib.sha256(...).hexdigest()\<close> is a parameter \<open>H\<close> of the model.
\<close>

record user_data =
  user_name :: string
  password_hash :: string
  ip :: string
  port :: int
  user_created_at :: real
  last_login :: "real option"

record user_manager =
  user_files :: "string \<rightharpoonup> user_data"
  current_user :: "user_data option"

definition user_exists :: "(string \<Rightarrow> lookup) \<Rightarrow> user_manager \<Rightarrow> string \<Rightarrow> bool" where
  "user_exists os um username =
     (case json_file os username of
        Unresolved \<Rightarrow> False
      | File_at k \<Rightarrow> user_files um k \<noteq> None
      | Foreign \<Rightarrow> True)"

definition hash_password :: "(string \<Rightarrow> string) \<Rightarrow> string \<Rightarrow> string" where
  "hash_password H password = (let salt = ''netapp_secure_salt'' in H (password @ salt))"

text \<open>
  \<open>register_user\<close>: when the path of the new file leads nowhere, \<open>open(user_file, 'w')\<close>
  raises and nothing is stored.
\<close>

definition register_user ::
  "(string \<Rightarrow> string) \<Rightarrow> (string \<Rightarrow> lookup) \<Rightarrow> user_manager \<Rightarrow> string \<Rightarrow> string \<Rightarrow> string \<Rightarrow> int
     \<Rightarrow> real \<Rightarrow> (error + bool \<times> string) \<times> user_manager" where
  "register_user H os um username password ip_addr prt now =
     (if user_exists os um username then (Inr (False, ''Username already exists''), um)
      else
        let data = \<lparr>user_name = username, password_hash = hash_password H password,
                     ip = ip_addr, port = prt, user_created_at = now, last_login = None\<rparr>
        in case json_file os username of
             File_at k \<Rightarrow>
               (Inr (True, ''User registered successfully''),
                um\<lparr>user_files := (user_files um)(k \<mapsto> data)\<rparr>)
           | _ \<Rightarrow> (Inl Bad_path, um))"

text \<open>
  \<open>authenticate\<close>: \<open>open(user_file, 'r')\<close> raises when there is no file to read, and a file
  that is not a user record has no \<open>"password_hash"\<close>.
\<close>

definition authenticate ::
  "(string \<Rightarrow> string) \<Rightarrow> (string \<Rightarrow> lookup) \<Rightarrow> user_manager \<Rightarrow> string \<Rightarrow> string \<Rightarrow> real
     \<Rightarrow> (error + bool \<times> string) \<times> user_manager" where
  "authenticate H os um username password now =
     (if \<not> user_exists os um username then (Inr (False, ''User does not exist''), um)
      else
        case json_file os username of
          File_at k \<Rightarrow>
            (case user_files um k of
               None \<Rightarrow> (Inl Bad_path, um)
             | Some data \<Rightarrow>
                 if password_hash data = hash_password H password
                 then
                   let data' = data\<lparr>last_login := Some now\<rparr>
                   in (Inr (True, ''Authentication successful''),
                       um\<lparr>user_files := (user_files um)(k \<mapsto> data'), current_user := Some data'\<rparr>)
                 else (Inr (False, ''Invalid password''), um))
        | _ \<Rightarrow> (Inl Not_a_record, um))"

section \<open>Example states\<close>

definition team_ops :: "store_op list" where
  "team_ops = [Create_chatroom ''Team'' ''alice'' None ''r1'' 1 0, Add_member ''r1'' ''bob'',
               Remove_member ''r1'' ''alice'', Remove_member ''r1'' ''bob'']"

definition team_room :: chatroom where
  "team_room = \<lparr>room_id = ''r1'', name = ''Team'', creator = ''alice'', created_at = 1,
                 members = [''alice''], messages = []\<rparr>"

text \<open>
  Operations that do not draw the id \<open>c\<close> for a new room: the generated ids are meant to
  be unique, and a creation that drew the id of an existing room would overwrite its file.
\<close>

fun leaves_file :: "string \<Rightarrow> store_op \<Rightarrow> bool" where
  "leaves_file c (Create_chatroom nm cr mems new_id now pos) = (new_id \<noteq> c)"
| "leaves_file c (Create_direct_message user1 user2 new_id now pos) = (new_id \<noteq> c)"
| "leaves_file c (Add_member chatroom_id username) = True"
| "leaves_file c (Remove_member chatroom_id username) = True"
| "leaves_file c (Add_message chatroom_id sndr cont message_type finfo new_id now) = True"

definition duplicate_ops :: "store_op list" where
  "duplicate_ops = [Create_chatroom ''Team'' ''alice'' (Some [''bob'', ''bob'']) ''r1'' 1 0]"

text \<open>
  What follows the creation of a second room \<open>r2\<close>: members join and leave it, a message
  is posted, and meanwhile another room is created from a list with a duplicate.
\<close>

definition project_ops :: "store_op list" where
  "project_ops = [Add_member ''r2'' ''erin'',
                  Create_chatroom ''Lobby'' ''zoe'' (Some [''yan'', ''yan'']) ''r3'' 3 0,
                  Add_member ''r2'' ''frank'', Add_member ''r2'' ''erin'',
                  Remove_member ''r2'' ''frank'',
                  Add_message ''r2'' ''carol'' ''hi'' ''text'' None ''m1'' 4]"

text \<open>The test that the scan of \<open>create_direct_message\<close> applies to each room.\<close>

definition is_dm_of :: "chatroom \<Rightarrow> string list \<Rightarrow> bool" where
  "is_dm_of chatroom_data users =
     (take 3 (name chatroom_data) = ''DM_''
      \<and> set (members chatroom_data) = set users
      \<and> length (members chatroom_data) = 2)"

definition dm_store :: store where
  "dm_store = [(''d1'', \<lparr>room_id = ''d1'', name = ''DM_alice_bob'', creator = ''alice'',
                  created_at = 5, members = [''alice'', ''bob''], messages = []\<rparr>)]"

definition msg_early :: message where
  "msg_early = \<lparr>msg_id = ''m1'', sender = ''alice'', content = ''hello'', msg_type = ''text'',
                 timestamp = 1700000000, file_info = None\<rparr>"

definition msg_late :: message where
  "msg_late = \<lparr>msg_id = ''m2'', sender = ''alice'', content = ''again'', msg_type = ''text'',
                timestamp = 1700000060, file_info = None\<rparr>"

definition history_store :: store where
  "history_store = [(''r1'', \<lparr>room_id = ''r1'', name = ''Team'', creator = ''alice'',
                       created_at = 1, members = [''alice''], messages = [msg_early, msg_late]\<rparr>)]"


definition idle_controller :: node_controller where
  "idle_controller = \<lparr>nodes_dir = ''/app/_nodes'',
                        files = [''/app/_nodes/10.0.0.5_9000.out'' \<mapsto> ''done''],
                        responses = Map.empty\<rparr>"

definition ready_controller :: node_controller where
  "ready_controller = \<lparr>nodes_dir = ''/app/_nodes'',
                         files = [''/app/_nodes/10.0.0.5_9000.out'' \<mapsto> ''hello'' @ [CHR 0x0A]],
                         responses = Map.empty\<rparr>"

definition blank_controller :: node_controller where
  "blank_controller = \<lparr>nodes_dir = ''/app/_nodes'',
                         files = [''/app/_nodes/10.0.0.5_9000.out'' \<mapsto> [CHR 0x0A]],
                         responses = Map.empty\<rparr>"

text \<open>
  Slots holding two lines with CR LF endings, a single no-break space, and the sentinel
  between blanks.
\<close>

definition crlf_controller :: node_controller where
  "crlf_controller = \<lparr>nodes_dir = ''/app/_nodes'',
                        files = [''/app/_nodes/10.0.0.5_9000.out'' \<mapsto>
                                   ''ok'' @ [CHR 0x0D, CHR 0x0A] @ ''42'' @ [CHR 0x0D, CHR 0x0A]],
                        responses = Map.empty\<rparr>"

definition nbsp_controller :: node_controller where
  "nbsp_controller = \<lparr>nodes_dir = ''/app/_nodes'',
                        files = [''/app/_nodes/10.0.0.5_9000.out'' \<mapsto> [CHR 0xA0]],
                        responses = Map.empty\<rparr>"

definition spaced_done_controller :: node_controller where
  "spaced_done_controller = \<lparr>nodes_dir = ''/app/_nodes'',
                               files = [''/app/_nodes/10.0.0.5_9000.out'' \<mapsto> '' done ''],
                               responses = Map.empty\<rparr>"

definition full_controller :: node_controller where
  "full_controller = \<lparr>nodes_dir = ''/app/_nodes'', files = Map.empty,
      responses = [''10.0.0.5:9000'' \<mapsto>
                     replicate 100 \<lparr>response_content = ''old'', response_timestamp = 1\<rparr>]\<rparr>"

definition one_more :: "channel_event list" where
  "one_more = [Node_writes ''10.0.0.5:9000'' (''hello'' @ [CHR 0x0A]), Poll ''10.0.0.5:9000'' 7]"

definition no_users :: user_manager where
  "no_users = \<lparr>user_files = Map.empty, current_user = None\<rparr>"

text \<open>
  Around a users directory without sub-directories the path \<open>a/b.json\<close> leads nowhere; no
  other path is looked up in this environment.
\<close>

definition no_subdirs :: "string \<Rightarrow> lookup" where
  "no_subdirs file_name = Unresolved"

text \<open>
  Around a chatrooms directory that holds \<open>r1.json\<close>, beside a users directory that holds
  \<open>alice.json\<close>: where two paths with directory parts lead.
\<close>

definition beside_users :: "string \<Rightarrow> lookup" where
  "beside_users file_name =
     (if file_name = ''./r1.json'' then File_at ''r1''
      else if file_name = ''../users/alice.json'' then Foreign
      else Unresolved)"

section \<open>Basic facts about the store\<close>

lemma map_of_update_same: "map_of (AList.update k v s) k = Some v"
  by (simp add: update_conv')

lemma map_of_update_other: "k' \<noteq> k \<Longrightarrow> map_of (AList.update k v s) k' = map_of s k'"
  by (simp add: update_conv')

lemma get_chatroom_map_of: "get_chatroom s c = map_of s c"
  by (simp add: get_chatroom_def chatroom_exists_def)

lemma map_of_insert_fresh:
  assumes "map_of s k = None"
  shows "map_of (take pos s @ (k, v) # drop pos s) k' = (if k' = k then Some v else map_of s k')"
proof -
  have split: "map_of s = map_of (drop pos s) ++ map_of (take pos s)"
    by (metis append_take_drop_id map_of_append)
  have "k \<notin> fst ` set s"
    using assms by (simp add: map_of_eq_None_iff)
  then have "k \<notin> fst ` set (take pos s)"
    using set_take_subset [of pos s] by blast
  then have tk: "map_of (take pos s) k = None"
    by (simp add: map_of_eq_None_iff)
  show ?thesis
  proof (cases "k' = k")
    case True
    then show ?thesis using tk by (simp add: map_add_def)
  next
    case False
    have "map_of s k' = (map_of (drop pos s) ++ map_of (take pos s)) k'"
      using split by simp
    with False show ?thesis
      by (simp add: map_add_def split: option.splits)
  qed
qed

lemma get_chatroom_write:
  "get_chatroom (write_chatroom pos k v s) k' = (if k' = k then Some v else get_chatroom s k')"
proof (cases "map_of s k")
  case None
  then show ?thesis
    by (simp add: get_chatroom_map_of write_chatroom_def chatroom_exists_def map_of_insert_fresh
          del: map_of_append)
next
  case (Some r)
  then show ?thesis
    by (simp add: get_chatroom_map_of write_chatroom_def chatroom_exists_def update_conv')
qed

lemma creator_member_create:
  assumes "\<forall>c r. get_chatroom s c = Some r \<longrightarrow> creator r \<in> set (members r)"
  shows "\<forall>c r. get_chatroom (snd (create_chatroom s nm cr mems new_id now pos)) c = Some r
           \<longrightarrow> creator r \<in> set (members r)"
  using assms by (auto simp: create_chatroom_def Let_def get_chatroom_write split: if_splits)

lemma creator_member_add:
  assumes "\<forall>c r. get_chatroom s c = Some r \<longrightarrow> creator r \<in> set (members r)"
  shows "\<forall>c r. get_chatroom (snd (add_member s k u)) c = Some r \<longrightarrow> creator r \<in> set (members r)"
  using assms by (auto simp: add_member_def get_chatroom_write split: option.splits if_splits)

lemma creator_member_remove:
  assumes "\<forall>c r. get_chatroom s c = Some r \<longrightarrow> creator r \<in> set (members r)"
  shows "\<forall>c r. get_chatroom (snd (remove_member s k u)) c = Some r \<longrightarrow> creator r \<in> set (members r)"
  using assms by (auto simp: remove_member_def get_chatroom_write split: option.splits if_splits)

lemma creator_member_message:
  assumes "\<forall>c r. get_chatroom s c = Some r \<longrightarrow> creator r \<in> set (members r)"
  shows "\<forall>c r. get_chatroom (snd (add_message s k sn ct ty fi i now)) c = Some r
           \<longrightarrow> creator r \<in> set (members r)"
  using assms by (auto simp: add_message_def Let_def get_chatroom_write split: option.splits if_splits)

lemma create_direct_message_store:
  "snd (create_direct_message s u1 u2 i now pos) =
     (case dm_scan s (sort [u1, u2]) of
        Some found \<Rightarrow> s
      | None \<Rightarrow> snd (create_chatroom s (''DM_'' @ sort [u1, u2] ! 0 @ ''_'' @ sort [u1, u2] ! 1)
                       (sort [u1, u2] ! 0) (Some (sort [u1, u2])) i now pos))"
  unfolding create_direct_message_def Let_def
  by (cases "dm_scan s (sort [u1, u2])") (simp_all add: create_chatroom_def Let_def)

lemma creator_member_dm:
  assumes "\<forall>c r. get_chatroom s c = Some r \<longrightarrow> creator r \<in> set (members r)"
  shows "\<forall>c r. get_chatroom (snd (create_direct_message s u1 u2 i now pos)) c = Some r
           \<longrightarrow> creator r \<in> set (members r)"
proof (cases "dm_scan s (sort [u1, u2])")
  case None
  then show ?thesis
    using creator_member_create [OF assms]
    by (simp only: create_direct_message_store option.case)
next
  case (Some a)
  then show ?thesis
    using assms by (simp only: create_direct_message_store option.case)
qed

lemma creator_member_step:
  assumes "\<forall>c r. get_chatroom s c = Some r \<longrightarrow> creator r \<in> set (members r)"
  shows "\<forall>c r. get_chatroom (apply_op s op) c = Some r \<longrightarrow> creator r \<in> set (members r)"
proof (cases op)
  case (Create_chatroom x11 x12 x13 x14 x15 x16)
  then show ?thesis using creator_member_create [OF assms] by simp
next
  case (Add_member x21 x22)
  then show ?thesis using creator_member_add [OF assms] by simp
next
  case (Remove_member x31 x32)
  then show ?thesis using creator_member_remove [OF assms] by simp
next
  case (Add_message x41 x42 x43 x44 x45 x46 x47)
  then show ?thesis using creator_member_message [OF assms] by simp
next
  case (Create_direct_message x51 x52 x53 x54 x55)
  then show ?thesis using creator_member_dm [OF assms] by simp
qed

lemma creator_member_run:
  "\<forall>c r. get_chatroom (run_ops ops) c = Some r \<longrightarrow> creator r \<in> set (members r)"
proof (induction ops rule: rev_induct)
  case Nil
  then show ?case by (simp add: run_ops_def get_chatroom_map_of)
next
  case (snoc op ops)
  then show ?case using creator_member_step [of "run_ops ops" op]
    by (simp add: run_ops_def)
qed

lemma run_team_ops: "run_ops team_ops = [(''r1'', team_room)]"
  by (simp add: team_ops_def team_room_def run_ops_def create_chatroom_def add_member_def
        remove_member_def write_chatroom_def chatroom_exists_def get_chatroom_def Let_def)

text \<open>
  C1.  In every store reached from the empty one by a sequence of store operations, the
  creator of each room is among its members, and removing the creator of an existing
  room is refused with the cannot-remove-creator outcome and writes nothing.
\<close>

theorem creator_never_removed:
  assumes "get_chatroom (run_ops ops) chatroom_id = Some r"
  shows "creator r \<in> set (members r)
         \<and> remove_member (run_ops ops) chatroom_id (creator r)
             = ((False, ''Cannot remove the creator of the chatroom''), run_ops ops)"
proof -
  have "creator r \<in> set (members r)"
    using creator_member_run assms by blast
  then show ?thesis using assms by (simp add: remove_member_def)
qed

theorem creator_never_removed_witness:
  "get_chatroom (run_ops team_ops) ''r1'' = Some team_room
   \<and> creator team_room \<in> set (members team_room)
   \<and> remove_member (run_ops team_ops) ''r1'' (creator team_room)
             = ((False, ''Cannot remove the creator of the chatroom''), run_ops team_ops)"
proof -
  have h: "get_chatroom (run_ops team_ops) ''r1'' = Some team_room"
    by (simp add: run_team_ops get_chatroom_map_of)
  show ?thesis using h creator_never_removed [OF h] by simp
qed

lemma get_team_room: "get_chatroom [(''r1'', team_room)] ''r1'' = Some team_room"
  by (simp add: get_chatroom_map_of)

lemma json_file_plain:
  assumes "CHR ''/'' \<notin> set stem" and "CHR 0x00 \<notin> set stem" and "fs_length stem \<le> 250"
  shows "json_file os stem = File_at stem"
  using assms by (simp add: json_file_def fs_length_def Let_def)

lemma add_member_path_file:
  "json_file os chatroom_id = File_at k \<Longrightarrow>
     add_member_path os s chatroom_id u
       = (Inr (fst (add_member s k u)), snd (add_member s k u))"
  by (simp add: add_member_path_def split: prod.splits)

lemma add_member_flag:
  "fst (fst (add_member s k u)) \<longleftrightarrow> (\<exists>r. get_chatroom s k = Some r \<and> u \<notin> set (members r))"
  by (auto simp: add_member_def split: option.splits)

lemma add_member_added:
  "get_chatroom s k = Some r \<Longrightarrow> u \<notin> set (members r) \<Longrightarrow>
     fst (add_member s k u) = (True, ''Member added successfully'')
     \<and> get_chatroom (snd (add_member s k u)) k
         = Some \<lparr>room_id = room_id r, name = name r, creator = creator r,
                  created_at = created_at r, members = members r @ [u],
                  messages = messages r\<rparr>"
  by (simp add: add_member_def get_chatroom_write)

lemma add_member_refused:
  "\<not> fst (fst (add_member s k u)) \<Longrightarrow> snd (add_member s k u) = s"
  by (auto simp: add_member_def split: option.splits if_splits)

lemma add_member_missing:
  "get_chatroom s k = None \<Longrightarrow> add_member s k u = ((False, ''Chatroom does not exist''), s)"
  by (simp add: add_member_def)

lemma add_member_already:
  "get_chatroom s k = Some r \<Longrightarrow> u \<in> set (members r) \<Longrightarrow>
     add_member s k u = ((False, ''User already a member''), s)"
  by (simp add: add_member_def)

text \<open>
  C8.  For every chatroom id, also one that is a path, \<open>add_member\<close> succeeds exactly when
  the id leads to a room and the user is not yet a member of it.  On success the stored
  record is the old one with the user appended to the members, every other field as
  before.  When there is no room or the user is already a member, the call fails with
  the respective outcome; every call that does not succeed leaves the store unchanged.
\<close>

theorem add_member_outcome:
  "((\<exists>msg. fst (add_member_path os s chatroom_id u) = Inr (True, msg))
      \<longleftrightarrow> (\<exists>r. get_chatroom_path os s chatroom_id = Inr (Some r) \<and> u \<notin> set (members r)))
   \<and> (\<forall>r. get_chatroom_path os s chatroom_id = Inr (Some r) \<and> u \<notin> set (members r) \<longrightarrow>
         fst (add_member_path os s chatroom_id u) = Inr (True, ''Member added successfully'')
         \<and> get_chatroom_path os (snd (add_member_path os s chatroom_id u)) chatroom_id
             = Inr (Some \<lparr>room_id = room_id r, name = name r, creator = creator r,
                           created_at = created_at r, members = members r @ [u],
                           messages = messages r\<rparr>))
   \<and> (\<not> chatroom_exists_path os s chatroom_id \<longrightarrow>
         add_member_path os s chatroom_id u = (Inr (False, ''Chatroom does not exist''), s))
   \<and> (\<forall>r. get_chatroom_path os s chatroom_id = Inr (Some r) \<and> u \<in> set (members r) \<longrightarrow>
         add_member_path os s chatroom_id u = (Inr (False, ''User already a member''), s))
   \<and> ((\<forall>msg. fst (add_member_path os s chatroom_id u) \<noteq> Inr (True, msg)) \<longrightarrow>
         snd (add_member_path os s chatroom_id u) = s)"
proof (cases "json_file os chatroom_id")
  case Unresolved
  then show ?thesis
    by (simp add: add_member_path_def get_chatroom_path_def chatroom_exists_path_def)
next
  case Foreign
  then show ?thesis
    by (simp add: add_member_path_def get_chatroom_path_def chatroom_exists_path_def)
next
  case (File_at k)
  have p: "add_member_path os s chatroom_id u
             = (Inr (fst (add_member s k u)), snd (add_member s k u))"
    by (rule add_member_path_file [OF File_at])
  have g: "get_chatroom_path os s' chatroom_id = Inr (get_chatroom s' k)" for s'
    by (simp add: get_chatroom_path_def File_at)
  have e: "chatroom_exists_path os s chatroom_id \<longleftrightarrow> get_chatroom s k \<noteq> None"
    by (simp add: chatroom_exists_path_def File_at get_chatroom_map_of chatroom_exists_def)
  have c1: "(\<exists>msg. fst (add_member s k u) = (True, msg))
              \<longleftrightarrow> (\<exists>r. get_chatroom s k = Some r \<and> u \<notin> set (members r))"
    using add_member_flag [of s k u] by (cases "fst (add_member s k u)") auto
  have c5: "(\<forall>msg. fst (add_member s k u) \<noteq> (True, msg)) \<longrightarrow> snd (add_member s k u) = s"
    using add_member_refused [of s k u] by (cases "fst (add_member s k u)") auto
  show ?thesis
    unfolding p g e
    using c1 c5 add_member_added [of s k _ u] add_member_missing [of s k u]
      add_member_already [of s k _ u]
    by simp
qed

theorem add_member_outcome_witness:
  "get_chatroom_path beside_users [(''r1'', team_room)] ''./r1'' = Inr (Some team_room)
   \<and> ''bob'' \<notin> set (members team_room)
   \<and> fst (add_member_path beside_users [(''r1'', team_room)] ''./r1'' ''bob'')
        = Inr (True, ''Member added successfully'')
   \<and> get_chatroom_path beside_users
        (snd (add_member_path beside_users [(''r1'', team_room)] ''./r1'' ''bob'')) ''r1''
        = Inr (Some \<lparr>room_id = ''r1'', name = ''Team'', creator = ''alice'', created_at = 1,
                      members = [''alice'', ''bob''], messages = []\<rparr>)
   \<and> \<not> chatroom_exists_path beside_users [(''r1'', team_room)] ''r2''
   \<and> add_member_path beside_users [(''r1'', team_room)] ''r2'' ''bob''
        = (Inr (False, ''Chatroom does not exist''), [(''r1'', team_room)])
   \<and> ''alice'' \<in> set (members team_room)
   \<and> add_member_path beside_users [(''r1'', team_room)] ''r1'' ''alice''
        = (Inr (False, ''User already a member''), [(''r1'', team_room)])
   \<and> add_member_path beside_users [(''r1'', team_room)] ''../users/alice'' ''bob''
        = (Inl Not_a_record, [(''r1'', team_room)])"
proof -
  have j1: "json_file beside_users ''./r1'' = File_at ''r1''"
    and j2: "json_file beside_users ''r1'' = File_at ''r1''"
    and j3: "json_file beside_users ''r2'' = File_at ''r2''"
    and j4: "json_file beside_users ''../users/alice'' = Foreign"
    by (simp_all add: json_file_def fs_length_def beside_users_def Let_def)
  have h1: "get_chatroom_path beside_users [(''r1'', team_room)] ''./r1'' = Inr (Some team_room)"
    and h1': "get_chatroom_path beside_users [(''r1'', team_room)] ''r1'' = Inr (Some team_room)"
    by (simp_all add: get_chatroom_path_def j1 j2 get_chatroom_map_of)
  have h2: "\<not> chatroom_exists_path beside_users [(''r1'', team_room)] ''r2''"
    by (simp add: chatroom_exists_path_def j3 chatroom_exists_def)
  have m1: "''bob'' \<notin> set (members team_room)" and m2: "''alice'' \<in> set (members team_room)"
    by (simp_all add: team_room_def)
  have f: "\<lparr>room_id = room_id team_room, name = name team_room, creator = creator team_room,
             created_at = created_at team_room, members = members team_room @ [''bob''],
             messages = messages team_room\<rparr>
           = \<lparr>room_id = ''r1'', name = ''Team'', creator = ''alice'', created_at = 1,
                 members = [''alice'', ''bob''], messages = []\<rparr>"
    by (simp add: team_room_def)
  have same: "get_chatroom_path beside_users s' ''r1'' = get_chatroom_path beside_users s' ''./r1''" for s'
    by (simp add: get_chatroom_path_def j1 j2)
  have foreign: "add_member_path beside_users [(''r1'', team_room)] ''../users/alice'' ''bob''
        = (Inl Not_a_record, [(''r1'', team_room)])"
    by (simp add: add_member_path_def j4)
  show ?thesis
    using add_member_outcome [of beside_users "[(''r1'', team_room)]" "''./r1''" "''bob''"]
          add_member_outcome [of beside_users "[(''r1'', team_room)]" "''r2''" "''bob''"]
          add_member_outcome [of beside_users "[(''r1'', team_room)]" "''r1''" "''alice''"]
          h1 h1' h2 m1 m2 f same foreign
    by simp
qed

lemma room_distinct_create:
  assumes "distinct (case mems of None \<Rightarrow> [] | Some ms \<Rightarrow> ms)"
  shows "\<exists>r. get_chatroom (snd (create_chatroom s nm cr mems c now pos)) c = Some r
             \<and> distinct (members r)"
  using assms by (auto simp: create_chatroom_def Let_def get_chatroom_write split: option.splits)

lemma room_distinct_other_create:
  assumes "get_chatroom s c = Some r" and "distinct (members r)" and "new_id \<noteq> c"
  shows "\<exists>r'. get_chatroom (snd (create_chatroom s nm cr mems new_id now pos)) c = Some r'
              \<and> distinct (members r')"
  using assms by (simp add: create_chatroom_def Let_def get_chatroom_write)

lemma room_distinct_add:
  assumes "get_chatroom s c = Some r" and "distinct (members r)"
  shows "\<exists>r'. get_chatroom (snd (add_member s k u)) c = Some r' \<and> distinct (members r')"
  using assms by (auto simp: add_member_def get_chatroom_write split: option.splits)

lemma room_distinct_remove:
  assumes "get_chatroom s c = Some r" and "distinct (members r)"
  shows "\<exists>r'. get_chatroom (snd (remove_member s k u)) c = Some r' \<and> distinct (members r')"
  using assms by (auto simp: remove_member_def get_chatroom_write split: option.splits)

lemma room_distinct_message:
  assumes "get_chatroom s c = Some r" and "distinct (members r)"
  shows "\<exists>r'. get_chatroom (snd (add_message s k sn ct ty fi i now)) c = Some r'
              \<and> distinct (members r')"
  using assms by (auto simp: add_message_def Let_def get_chatroom_write split: option.splits)

lemma room_distinct_dm:
  assumes "get_chatroom s c = Some r" and "distinct (members r)" and "new_id \<noteq> c"
  shows "\<exists>r'. get_chatroom (snd (create_direct_message s u1 u2 new_id now pos)) c = Some r'
              \<and> distinct (members r')"
proof (cases "dm_scan s (sort [u1, u2])")
  case None
  then show ?thesis
    using room_distinct_other_create [OF assms]
    by (simp only: create_direct_message_store option.case)
next
  case (Some a)
  then show ?thesis
    using assms by (simp only: create_direct_message_store option.case) simp
qed

lemma room_distinct_step:
  assumes "get_chatroom s c = Some r" and "distinct (members r)" and "leaves_file c op"
  shows "\<exists>r'. get_chatroom (apply_op s op) c = Some r' \<and> distinct (members r')"
proof (cases op)
  case (Create_chatroom nm cr mems new_id now pos)
  then show ?thesis using room_distinct_other_create [OF assms(1,2)] assms(3) by simp
next
  case (Add_member k u)
  then show ?thesis using room_distinct_add [OF assms(1,2)] by simp
next
  case (Remove_member k u)
  then show ?thesis using room_distinct_remove [OF assms(1,2)] by simp
next
  case (Add_message k sn ct ty fi i now)
  then show ?thesis using room_distinct_message [OF assms(1,2)] by simp
next
  case (Create_direct_message u1 u2 new_id now pos)
  then show ?thesis using room_distinct_dm [OF assms(1,2)] assms(3) by simp
qed

lemma room_distinct_run:
  assumes "get_chatroom s c = Some r" and "distinct (members r)" and "list_all (leaves_file c) ops"
  shows "\<exists>r'. get_chatroom (foldl apply_op s ops) c = Some r' \<and> distinct (members r')"
  using assms
proof (induction ops arbitrary: s r)
  case Nil
  then show ?case by simp
next
  case (Cons op ops)
  from Cons.prems have "leaves_file c op" and rest: "list_all (leaves_file c) ops"
    by simp_all
  from room_distinct_step [OF Cons.prems(1,2) this(1)]
  obtain r1 where "get_chatroom (apply_op s op) c = Some r1" and "distinct (members r1)"
    by blast
  from Cons.IH [OF this rest] show ?case by simp
qed

text \<open>
  C9 as stated fails: \<open>create_chatroom\<close> stores the caller's list as it is, so a list
  that names a user twice is persisted with the duplicate.
\<close>

theorem members_duplicate_counterexample:
  "map_option members (get_chatroom (run_ops duplicate_ops) ''r1'')
     = Some [''bob'', ''bob'', ''alice'']
   \<and> \<not> distinct [''bob'', ''bob'', ''alice'']"
  by (simp add: duplicate_ops_def run_ops_def create_chatroom_def write_chatroom_def
        chatroom_exists_def get_chatroom_def Let_def)

lemma project_room:
  "get_chatroom (foldl apply_op
       (snd (create_chatroom (run_ops duplicate_ops) ''Project'' ''carol''
               (Some [''dave'', ''carol'']) ''r2'' 2 0)) project_ops) ''r2''
     = Some \<lparr>room_id = ''r2'', name = ''Project'', creator = ''carol'', created_at = 2,
              members = [''dave'', ''carol'', ''erin''],
              messages = [\<lparr>msg_id = ''m1'', sender = ''carol'', content = ''hi'',
                            msg_type = ''text'', timestamp = 4, file_info = None\<rparr>]\<rparr>"
  by (simp add: duplicate_ops_def project_ops_def run_ops_def create_chatroom_def add_member_def
        remove_member_def add_message_def write_chatroom_def chatroom_exists_def get_chatroom_def
        Let_def)

text \<open>
  C9, amended.  A room that \<open>create_chatroom\<close> makes from an initial members list without
  duplicates (any name and creator, in any store, also one whose other rooms carry
  duplicates) has a members list without duplicates, and it keeps one through every
  later sequence of \<open>add_member\<close>, \<open>remove_member\<close>, \<open>add_message\<close> and creations of
  other rooms, whatever lists those are given.
\<close>

theorem members_distinct:
  assumes "distinct (case mems of None \<Rightarrow> [] | Some ms \<Rightarrow> ms)"
    and "list_all (leaves_file new_id) ops"
  shows "\<exists>r. get_chatroom
                (foldl apply_op (snd (create_chatroom s nm cr mems new_id now pos)) ops) new_id
                = Some r
             \<and> distinct (members r)"
proof -
  from room_distinct_create [OF assms(1), of s nm cr new_id now pos]
  obtain r0 where "get_chatroom (snd (create_chatroom s nm cr mems new_id now pos)) new_id = Some r0"
    and "distinct (members r0)"
    by blast
  from room_distinct_run [OF this assms(2)] show ?thesis .
qed

theorem members_distinct_witness:
  "distinct [''dave'', ''carol'']
   \<and> list_all (leaves_file ''r2'') project_ops
   \<and> map_option members (get_chatroom (run_ops duplicate_ops) ''r1'') = Some [''bob'', ''bob'', ''alice'']
   \<and> map_option members
        (get_chatroom (foldl apply_op
           (snd (create_chatroom (run_ops duplicate_ops) ''Project'' ''carol''
                   (Some [''dave'', ''carol'']) ''r2'' 2 0)) project_ops) ''r2'')
       = Some [''dave'', ''carol'', ''erin'']
   \<and> distinct [''dave'', ''carol'', ''erin'']"
proof -
  have h1: "distinct (case Some [''dave'', ''carol''] of None \<Rightarrow> [] | Some ms \<Rightarrow> ms)"
    by simp
  have h2: "list_all (leaves_file ''r2'') project_ops"
    by (simp add: project_ops_def)
  have h3: "map_option members (get_chatroom (run_ops duplicate_ops) ''r1'')
              = Some [''bob'', ''bob'', ''alice'']"
    by (simp add: duplicate_ops_def run_ops_def create_chatroom_def write_chatroom_def
          chatroom_exists_def get_chatroom_def Let_def)
  from members_distinct [OF h1 h2, of "run_ops duplicate_ops" "''Project''" "''carol''" 2 0]
    h2 h3
  show ?thesis by (simp add: project_room)
qed

lemma dm_scan_None: "dm_scan s users = None \<longleftrightarrow> (\<forall>(k, r) \<in> set s. \<not> is_dm_of r users)"
  by (induction s users rule: dm_scan.induct) (auto simp: is_dm_of_def)

lemma dm_scan_unique:
  assumes "(k, v) \<in> set s" and "is_dm_of v users"
    and "\<forall>(k', r) \<in> set s. is_dm_of r users \<longrightarrow> room_id r = room_id v"
  shows "dm_scan s users = Some (room_id v)"
  using assms by (induction s users rule: dm_scan.induct) (auto simp: is_dm_of_def)

lemma set_update_subset: "set (AList.update k v s) \<subseteq> insert (k, v) (set s)"
  by (induction s) auto

lemma update_mem: "(k, v) \<in> set (AList.update k v s)"
  by (induction s) auto

lemma set_write_chatroom_subset: "set (write_chatroom pos k v s) \<subseteq> insert (k, v) (set s)"
proof (cases "chatroom_exists s k")
  case True
  then show ?thesis by (simp add: write_chatroom_def set_update_subset)
next
  case False
  have "set (take pos s) \<union> set (drop pos s) = set s"
    by (metis append_take_drop_id set_append)
  with False show ?thesis by (auto simp: write_chatroom_def)
qed

lemma write_chatroom_mem: "(k, v) \<in> set (write_chatroom pos k v s)"
  by (simp add: write_chatroom_def update_mem)

lemma dm_scan_write:
  assumes "dm_scan s users = None" and "is_dm_of v users"
  shows "dm_scan (write_chatroom pos k v s) users = Some (room_id v)"
proof (rule dm_scan_unique [OF write_chatroom_mem assms(2)])
  show "\<forall>(k', r) \<in> set (write_chatroom pos k v s). is_dm_of r users \<longrightarrow> room_id r = room_id v"
    using set_write_chatroom_subset [of pos k v s] assms(1) by (auto simp: dm_scan_None)
qed

lemma sort_pair_commute: "sort [a, b] = sort [b, (a::string)]"
  by auto

lemma sort_pair_cases: "sort [a, b] = [a, b] \<or> sort [a, b] = [b, (a::string)]"
  by auto

lemma create_direct_message_commute:
  "create_direct_message s u2 u1 i now pos = create_direct_message s u1 u2 i now pos"
  unfolding create_direct_message_def sort_pair_commute [of u2 u1] by (rule refl)

lemma create_direct_message_found:
  "dm_scan s (sort [u1, u2]) = Some found \<Longrightarrow>
     create_direct_message s u1 u2 i now pos = ((Some found, False), s)"
  by (simp add: create_direct_message_def Let_def)

lemma create_direct_message_new:
  assumes "dm_scan s (sort [u1, u2]) = None"
  shows "\<exists>v. is_dm_of v (sort [u1, u2]) \<and> room_id v = i
           \<and> create_direct_message s u1 u2 i now pos = ((Some i, True), write_chatroom pos i v s)"
proof -
  define users where "users = sort [u1, u2]"
  define v where "v = \<lparr>room_id = i, name = ''DM_'' @ users ! 0 @ ''_'' @ users ! 1,
     creator = users ! 0, created_at = now, members = users, messages = []\<rparr>"
  have len: "length users = 2" and mem: "users ! 0 \<in> set users"
    using sort_pair_cases [of u1 u2] by (auto simp: users_def)
  have "is_dm_of v users"
    using len by (simp add: is_dm_of_def v_def)
  moreover have "create_chatroom s (''DM_'' @ users ! 0 @ ''_'' @ users ! 1) (users ! 0)
      (Some users) i now pos = ((True, ''Chatroom created successfully'', i), write_chatroom pos i v s)"
    using mem by (simp add: create_chatroom_def Let_def v_def)
  then have "create_direct_message s u1 u2 i now pos = ((Some i, True), write_chatroom pos i v s)"
    using assms unfolding create_direct_message_def Let_def users_def [symmetric]
    by simp
  moreover have "room_id v = i" by (simp add: v_def)
  ultimately show ?thesis unfolding users_def by blast
qed

text \<open>
  C6.  Whatever the first call of \<open>create_direct_message\<close> for two users returns, a
  second call in the resulting store, with the users in either order, returns the same
  room id with the created flag false and changes nothing; and the first call itself does
  not depend on the order of its two arguments.
\<close>

theorem create_direct_message_idempotent:
  assumes "create_direct_message s u1 u2 i1 t1 p1 = ((r1, new1), s1)"
  shows "r1 \<noteq> None
         \<and> create_direct_message s1 u1 u2 i2 t2 p2 = ((r1, False), s1)
         \<and> create_direct_message s1 u2 u1 i2 t2 p2 = ((r1, False), s1)
         \<and> create_direct_message s u2 u1 i1 t1 p1 = ((r1, new1), s1)"
proof -
  have *: "r1 \<noteq> None \<and> create_direct_message s1 u1 u2 i2 t2 p2 = ((r1, False), s1)"
  proof (cases "dm_scan s (sort [u1, u2])")
    case None
    from create_direct_message_new [OF None, of i1 t1 p1] assms
    obtain v where v: "is_dm_of v (sort [u1, u2])" "room_id v = i1"
      and r: "r1 = Some i1" "s1 = write_chatroom p1 i1 v s"
      by auto
    have "dm_scan s1 (sort [u1, u2]) = Some i1"
      using dm_scan_write [OF None v(1), of p1 i1] v(2) r(2) by simp
    from create_direct_message_found [OF this, of i2 t2 p2] show ?thesis
      using r(1) by simp
  next
    case (Some found)
    from create_direct_message_found [OF Some, of i1 t1 p1] assms
    have r: "r1 = Some found" "s1 = s" by auto
    show ?thesis
      using create_direct_message_found [OF Some, of i2 t2 p2] r by simp
  qed
  then show ?thesis
    using assms by (simp add: create_direct_message_commute)
qed

lemma sort_bob_alice: "sort [''bob'', ''alice''] = [''alice'', ''bob'']"
  by (simp add: less_eq_char_def)

lemma first_direct_message:
  "create_direct_message [] ''bob'' ''alice'' ''d1'' 5 0 = ((Some ''d1'', True), dm_store)"
  unfolding create_direct_message_def Let_def sort_bob_alice
  by (simp add: dm_store_def create_chatroom_def write_chatroom_def chatroom_exists_def)

theorem create_direct_message_idempotent_witness:
  "create_direct_message [] ''bob'' ''alice'' ''d1'' 5 0 = ((Some ''d1'', True), dm_store)
   \<and> create_direct_message dm_store ''bob'' ''alice'' ''d2'' 6 1 = ((Some ''d1'', False), dm_store)
   \<and> create_direct_message dm_store ''alice'' ''bob'' ''d2'' 6 1 = ((Some ''d1'', False), dm_store)
   \<and> create_direct_message [] ''alice'' ''bob'' ''d1'' 5 0 = ((Some ''d1'', True), dm_store)"
  using first_direct_message
        create_direct_message_idempotent [OF first_direct_message, of "''d2''" 6 1]
  by simp

lemma set_py_slice_to: "set (py_slice_to xs limit) \<subseteq> set xs"
  by (simp add: py_slice_to_def set_take_subset)

lemma length_py_slice_to: "0 \<le> limit \<Longrightarrow> int (length (py_slice_to xs limit)) \<le> limit"
  by (simp add: py_slice_to_def)

lemma set_sort_reverse: "set (sort_reverse ms) = set ms"
  by (simp add: sort_reverse_def)

lemma sort_reverse_descending:
  "sorted_wrt (\<lambda>a b. timestamp b \<le> timestamp a) (sort_reverse ms)"
proof -
  have "sorted (map timestamp (sort_key timestamp (rev ms)))"
    by (rule sorted_sort_key)
  then have "sorted_wrt (\<lambda>a b. timestamp a \<le> timestamp b) (sort_key timestamp (rev ms))"
    by (simp only: sorted_wrt_map)
  then show ?thesis
    by (simp only: sort_reverse_def sorted_wrt_rev)
qed

lemma get_messages_unfold:
  "get_chatroom s chatroom_id = Some r \<Longrightarrow>
     get_messages s chatroom_id limit before_timestamp =
       py_slice_to (sort_reverse
         (case before_timestamp of
            None \<Rightarrow> messages r
          | Some b \<Rightarrow> if b \<noteq> 0 then filter (\<lambda>m. timestamp m < b) (messages r) else messages r))
         limit"
  by (simp only: get_messages_def Let_def option.case)

lemma get_messages_missing:
  "get_chatroom s chatroom_id = None \<Longrightarrow> get_messages s chatroom_id limit before_timestamp = []"
  by (simp only: get_messages_def option.case)

lemma get_messages_length:
  "0 \<le> limit \<Longrightarrow> int (length (get_messages s chatroom_id limit before_timestamp)) \<le> limit"
proof (cases "get_chatroom s chatroom_id")
  case None
  then show "0 \<le> limit \<Longrightarrow> ?thesis" by (simp add: get_messages_missing)
next
  case (Some r)
  then show "0 \<le> limit \<Longrightarrow> ?thesis"
    by (simp only: get_messages_unfold length_py_slice_to)
qed

lemma sorted_wrt_py_slice_to: "sorted_wrt P xs \<Longrightarrow> sorted_wrt P (py_slice_to xs limit)"
  by (simp add: py_slice_to_def)

lemma get_messages_descending:
  "sorted_wrt (\<lambda>a b. timestamp b \<le> timestamp a) (get_messages s chatroom_id limit before_timestamp)"
proof (cases "get_chatroom s chatroom_id")
  case None
  then show ?thesis by (simp add: get_messages_missing)
next
  case (Some r)
  show ?thesis
    unfolding get_messages_unfold [OF Some]
    by (rule sorted_wrt_py_slice_to) (rule sort_reverse_descending)
qed

lemma get_messages_older:
  assumes "b \<noteq> 0" and "m \<in> set (get_messages s chatroom_id limit (Some b))"
  shows "timestamp m < b"
proof (cases "get_chatroom s chatroom_id")
  case None
  then show ?thesis using assms by (simp add: get_messages_missing)
next
  case (Some r)
  have "m \<in> set (py_slice_to (sort_reverse (filter (\<lambda>m. timestamp m < b) (messages r))) limit)"
    using assms by (simp add: get_messages_unfold [OF Some])
  then have "m \<in> set (sort_reverse (filter (\<lambda>m. timestamp m < b) (messages r)))"
    by (rule subsetD [OF set_py_slice_to])
  then have "m \<in> set (filter (\<lambda>m. timestamp m < b) (messages r))"
    by (simp only: set_sort_reverse)
  then show ?thesis by simp
qed

lemma history_room:
  "get_chatroom history_store ''r1'' = Some \<lparr>room_id = ''r1'', name = ''Team'', creator = ''alice'',
      created_at = 1, members = [''alice''], messages = [msg_early, msg_late]\<rparr>"
  by (simp add: history_store_def get_chatroom_map_of)

lemma sort_reverse_history: "sort_reverse [msg_early, msg_late] = [msg_late, msg_early]"
  by (simp add: sort_reverse_def msg_early_def msg_late_def)

text \<open>
  C5.  The docstring of \<open>get_messages\<close> promises "only return messages before this
  timestamp", and for a limit that is a count and a supplied timestamp other than zero
  the lemmas above give the bound, the order and the filter.  The test
  \<open>if before_timestamp:\<close> is false for the supplied timestamp 0, though: the filter is
  skipped and messages that are not older than 0 are returned.
\<close>

theorem get_messages_before_zero:
  "get_messages history_store ''r1'' 50 (Some 0) = [msg_late, msg_early]
   \<and> \<not> timestamp msg_late < 0"
proof -
  have "get_messages history_store ''r1'' 50 (Some 0) = py_slice_to (sort_reverse [msg_early, msg_late]) 50"
    by (simp add: get_messages_unfold [OF history_room])
  also have "\<dots> = [msg_late, msg_early]"
    by (simp add: sort_reverse_history py_slice_to_def)
  finally show ?thesis by (simp add: msg_late_def)
qed






lemma strip_Nil: "strip [] = []"
  by (simp add: strip_def)

lemma strip_done: "strip ''done'' = ''done''"
  by (simp add: strip_def is_space_def)

lemma strip_hello: "strip (universal_newlines (''hello'' @ [CHR 0x0A])) = ''hello''"
  by (simp add: strip_def is_space_def)

lemma out_file_example: "out_file idle_controller ''10.0.0.5:9000'' = ''/app/_nodes/10.0.0.5_9000.out''"
  by (simp add: out_file_def idle_controller_def path_join_def format_node_address_def)

lemma out_file_ready: "out_file ready_controller ''10.0.0.5:9000'' = ''/app/_nodes/10.0.0.5_9000.out''"
  by (simp add: out_file_def ready_controller_def path_join_def format_node_address_def)

lemma read_from_node_absent:
  "files st (out_file st a) = None \<Longrightarrow> read_from_node st a = (None, st)"
  by (simp add: read_from_node_def)

lemma read_from_node_idle:
  "files st (out_file st a) = Some raw \<Longrightarrow>
     strip (universal_newlines raw) = [] \<or> strip (universal_newlines raw) = ''done'' \<Longrightarrow>
     read_from_node st a = (None, st)"
  by (auto simp: read_from_node_def Let_def)

lemma read_from_node_real:
  "files st (out_file st a) = Some raw \<Longrightarrow>
     strip (universal_newlines raw) \<noteq> [] \<Longrightarrow> strip (universal_newlines raw) \<noteq> ''done'' \<Longrightarrow>
     read_from_node st a = (Some (strip (universal_newlines raw)),
                            st\<lparr>files := (files st)(out_file st a \<mapsto> [])\<rparr>)"
  by (simp add: read_from_node_def Let_def)

lemma read_from_node_result:
  "fst (read_from_node st a) \<noteq> Some [] \<and> fst (read_from_node st a) \<noteq> Some ''done''"
  by (simp add: read_from_node_def Let_def split: option.splits)

lemma read_from_node_responses: "responses (snd (read_from_node st a)) = responses st"
  by (simp add: read_from_node_def Let_def split: option.splits)

lemma read_from_node_nodes_dir: "nodes_dir (snd (read_from_node st a)) = nodes_dir st"
  by (simp add: read_from_node_def Let_def split: option.splits)

lemma get_response_fst: "fst (get_response st a now) = fst (read_from_node st a)"
  by (cases "read_from_node st a")
     (simp add: get_response_def Let_def split: option.splits)

lemma get_response_idle:
  "read_from_node st a = (None, st) \<Longrightarrow> get_response st a now = (None, st)"
  by (simp add: get_response_def)

lemma get_response_real:
  assumes "read_from_node st a = (Some r, st1)"
  shows "get_response st a now =
           (Some r, st1\<lparr>responses := (responses st1)(a \<mapsto>
              (let rs1 = (case responses st1 a of None \<Rightarrow> [] | Some rs \<Rightarrow> rs)
                           @ [\<lparr>response_content = r, response_timestamp = now\<rparr>]
               in if length rs1 > 100 then last_100 rs1 else rs1))\<rparr>)"
proof -
  have "r \<noteq> []"
    using read_from_node_result [of st a] assms by auto
  then show ?thesis
    using assms by (simp add: get_response_def Let_def)
qed

lemma set_last_100: "set (last_100 xs) \<subseteq> set xs"
  by (simp add: last_100_def set_drop_subset)

lemma get_response_ledger:
  assumes "e \<in> set (get_all_responses (snd (get_response st a now)) a')"
  shows "e \<in> set (get_all_responses st a') \<or> response_content e \<noteq> ''done''"
proof (cases "read_from_node st a")
  case (Pair res st1)
  have resp: "responses st1 = responses st"
    using read_from_node_responses [of st a] Pair by simp
  show ?thesis
  proof (cases res)
    case None
    then show ?thesis
      using assms Pair resp by (simp add: get_response_def get_all_responses_def)
  next
    case (Some r)
    have nd: "r \<noteq> ''done''"
      using read_from_node_result [of st a] Pair Some by auto
    define rs0 where "rs0 = (case responses st a of None \<Rightarrow> [] | Some rs \<Rightarrow> rs)"
    define rs1 where "rs1 = rs0 @ [\<lparr>response_content = r, response_timestamp = now\<rparr>]"
    define rs2 where "rs2 = (if length rs1 > 100 then last_100 rs1 else rs1)"
    have gr: "get_response st a now = (Some r, st1\<lparr>responses := (responses st1)(a \<mapsto> rs2)\<rparr>)"
      using get_response_real [of st a r st1 now] Pair Some resp
      by (simp add: rs2_def rs1_def rs0_def Let_def)
    have sub: "set rs2 \<subseteq> set rs1"
      using set_last_100 [of rs1] by (auto simp: rs2_def)
    show ?thesis
    proof (cases "a' = a")
      case True
      then have "e \<in> set rs2"
        using assms gr by (simp add: get_all_responses_def)
      then have "e \<in> set rs0 \<or> e = \<lparr>response_content = r, response_timestamp = now\<rparr>"
        using sub by (auto simp: rs1_def)
      moreover have "set rs0 = set (get_all_responses st a')"
        using True by (simp add: rs0_def get_all_responses_def split: option.splits)
      ultimately show ?thesis using nd by auto
    next
      case False
      then show ?thesis
        using assms gr resp by (simp add: get_all_responses_def)
    qed
  qed
qed

text \<open>
  C2.  A poll never hands the sentinel \<open>"done"\<close> to its caller, and every ledger entry
  found after the poll either was there before or does not hold the sentinel.  When the
  result slot is absent, empty or holds \<open>"done"\<close>, the poll returns nothing and leaves
  the whole state (ledger and slot) as it was.
\<close>

theorem get_response_never_done:
  "fst (get_response st a now) \<noteq> Some ''done''
   \<and> (\<forall>a' e. e \<in> set (get_all_responses (snd (get_response st a now)) a')
         \<longrightarrow> e \<in> set (get_all_responses st a') \<or> response_content e \<noteq> ''done'')
   \<and> (files st (out_file st a) = None \<or> files st (out_file st a) = Some []
        \<or> files st (out_file st a) = Some ''done''
         \<longrightarrow> get_response st a now = (None, st))"
proof -
  have "fst (get_response st a now) \<noteq> Some ''done''"
    using read_from_node_result [of st a] by (simp add: get_response_fst)
  moreover have "get_response st a now = (None, st)"
    if "files st (out_file st a) = None \<or> files st (out_file st a) = Some []
        \<or> files st (out_file st a) = Some ''done''"
  proof -
    have "read_from_node st a = (None, st)"
      using that read_from_node_absent [of st a]
        read_from_node_idle [of st a "[]"] read_from_node_idle [of st a "''done''"]
      by (auto simp: strip_Nil strip_done)
    then show ?thesis by (rule get_response_idle)
  qed
  ultimately show ?thesis
    using get_response_ledger [of _ st a now] by blast
qed

lemma poll_ready:
  "get_response ready_controller ''10.0.0.5:9000'' 7 =
     (Some ''hello'',
      \<lparr>nodes_dir = ''/app/_nodes'',
        files = [''/app/_nodes/10.0.0.5_9000.out'' \<mapsto> []],
        responses = [''10.0.0.5:9000'' \<mapsto> [\<lparr>response_content = ''hello'', response_timestamp = 7\<rparr>]]\<rparr>)"
proof -
  have f: "files ready_controller (out_file ready_controller ''10.0.0.5:9000'') = Some (''hello'' @ [CHR 0x0A])"
    unfolding out_file_ready by (simp add: ready_controller_def)
  have "read_from_node ready_controller ''10.0.0.5:9000'' =
          (Some ''hello'', ready_controller\<lparr>files := (files ready_controller)
              (out_file ready_controller ''10.0.0.5:9000'' \<mapsto> [])\<rparr>)"
    using read_from_node_real [OF f, unfolded strip_hello] by simp
  from get_response_real [OF this, of 7] show ?thesis
    unfolding out_file_ready by (simp add: ready_controller_def Let_def)
qed

theorem get_response_never_done_witness:
  "files idle_controller (out_file idle_controller ''10.0.0.5:9000'') = Some ''done''
   \<and> get_response idle_controller ''10.0.0.5:9000'' 7 = (None, idle_controller)
   \<and> \<lparr>response_content = ''hello'', response_timestamp = 7\<rparr>
        \<in> set (get_all_responses (snd (get_response ready_controller ''10.0.0.5:9000'' 7)) ''10.0.0.5:9000'')
   \<and> \<lparr>response_content = ''hello'', response_timestamp = 7\<rparr>
        \<notin> set (get_all_responses ready_controller ''10.0.0.5:9000'')
   \<and> response_content \<lparr>response_content = ''hello'', response_timestamp = 7\<rparr> \<noteq> ''done''"
proof -
  have h: "files idle_controller (out_file idle_controller ''10.0.0.5:9000'') = Some ''done''"
    unfolding out_file_example by (simp add: idle_controller_def)
  have m: "\<lparr>response_content = ''hello'', response_timestamp = 7\<rparr>
        \<in> set (get_all_responses (snd (get_response ready_controller ''10.0.0.5:9000'' 7)) ''10.0.0.5:9000'')"
    by (simp add: poll_ready get_all_responses_def)
  have n: "\<lparr>response_content = ''hello'', response_timestamp = 7\<rparr>
        \<notin> set (get_all_responses ready_controller ''10.0.0.5:9000'')"
    by (simp add: get_all_responses_def ready_controller_def)
  show ?thesis
    using h m n get_response_never_done [of idle_controller "''10.0.0.5:9000''" 7]
      get_response_never_done [of ready_controller "''10.0.0.5:9000''" 7]
    by auto
qed

lemma out_file_blank: "out_file blank_controller ''10.0.0.5:9000'' = ''/app/_nodes/10.0.0.5_9000.out''"
  by (simp add: out_file_def blank_controller_def path_join_def format_node_address_def)

lemma strip_newline: "strip [CHR 0x0A] = []"
  by (simp add: strip_def is_space_def)

lemma poll_blank: "get_response blank_controller ''10.0.0.5:9000'' 7 = (None, blank_controller)"
proof -
  have f: "files blank_controller (out_file blank_controller ''10.0.0.5:9000'') = Some [CHR 0x0A]"
    unfolding out_file_blank by (simp add: blank_controller_def)
  have "read_from_node blank_controller ''10.0.0.5:9000'' = (None, blank_controller)"
    by (rule read_from_node_idle [OF f]) (simp add: strip_newline)
  then show ?thesis by (rule get_response_idle)
qed

lemma slot_ready:
  "files ready_controller (out_file ready_controller ''10.0.0.5:9000'') = Some (''hello'' @ [CHR 0x0A])"
  unfolding out_file_ready by (simp add: ready_controller_def)

lemma slot_blank:
  "files blank_controller (out_file blank_controller ''10.0.0.5:9000'') = Some [CHR 0x0A]"
  unfolding out_file_blank by (simp add: blank_controller_def)

text \<open>
  C7 as stated fails: the slot is read through \<open>strip()\<close>.  A slot holding
  \<open>"hello\n"\<close> is handed over as \<open>"hello"\<close>, and a slot holding only a line break,
  which is neither empty nor the sentinel, is not handed over and not cleared.
\<close>

theorem get_response_strips_counterexample:
  "files ready_controller (out_file ready_controller ''10.0.0.5:9000'') = Some (''hello'' @ [CHR 0x0A])
   \<and> ''hello'' @ [CHR 0x0A] \<noteq> [] \<and> ''hello'' @ [CHR 0x0A] \<noteq> ''done''
   \<and> fst (get_response ready_controller ''10.0.0.5:9000'' 7) \<noteq> Some (''hello'' @ [CHR 0x0A])
   \<and> files blank_controller (out_file blank_controller ''10.0.0.5:9000'') = Some [CHR 0x0A]
   \<and> [CHR 0x0A] \<noteq> [] \<and> [CHR 0x0A] \<noteq> ''done''
   \<and> get_response blank_controller ''10.0.0.5:9000'' 7 = (None, blank_controller)"
  using slot_ready slot_blank by (simp add: poll_ready poll_blank)

lemma out_file_nodes_dir: "nodes_dir st' = nodes_dir st \<Longrightarrow> out_file st' a = out_file st a"
  by (simp add: out_file_def)

lemma get_response_real_slot:
  assumes "files st (out_file st a) = Some raw"
    and "strip (universal_newlines raw) \<noteq> []" and "strip (universal_newlines raw) \<noteq> ''done''"
  shows "fst (get_response st a now) = Some (strip (universal_newlines raw))
         \<and> files (snd (get_response st a now)) (out_file st a) = Some []
         \<and> get_response (snd (get_response st a now)) a now'
              = (None, snd (get_response st a now))"
proof -
  define st1 where "st1 = st\<lparr>files := (files st)(out_file st a \<mapsto> [])\<rparr>"
  have rd: "read_from_node st a = (Some (strip (universal_newlines raw)), st1)"
    unfolding st1_def by (rule read_from_node_real [OF assms])
  define st2 where "st2 = snd (get_response st a now)"
  have st2: "files st2 = files st1" "nodes_dir st2 = nodes_dir st"
    unfolding st2_def get_response_real [OF rd] by (simp_all add: st1_def)
  have res: "fst (get_response st a now) = Some (strip (universal_newlines raw))"
    by (simp add: get_response_fst rd)
  have of: "out_file st2 a = out_file st a"
    by (rule out_file_nodes_dir) (rule st2(2))
  have slot: "files st2 (out_file st a) = Some []"
    by (simp add: st2(1) st1_def)
  have "read_from_node st2 a = (None, st2)"
    by (rule read_from_node_idle [where raw = "[]"]) (simp_all add: of slot strip_Nil)
  then have "get_response st2 a now' = (None, st2)"
    by (rule get_response_idle)
  then show ?thesis
    using res slot by (simp add: st2_def)
qed

lemma get_response_blank_slot:
  assumes "files st (out_file st a) = Some raw"
    and "strip (universal_newlines raw) = [] \<or> strip (universal_newlines raw) = ''done''"
  shows "get_response st a now = (None, st)"
  by (rule get_response_idle) (rule read_from_node_idle [OF assms])

lemma slot_crlf:
  "files crlf_controller (out_file crlf_controller ''10.0.0.5:9000'')
     = Some (''ok'' @ [CHR 0x0D, CHR 0x0A] @ ''42'' @ [CHR 0x0D, CHR 0x0A])"
  by (simp add: out_file_def crlf_controller_def path_join_def format_node_address_def)

lemma slot_nbsp:
  "files nbsp_controller (out_file nbsp_controller ''10.0.0.5:9000'') = Some [CHR 0xA0]"
  by (simp add: out_file_def nbsp_controller_def path_join_def format_node_address_def)

lemma slot_spaced_done:
  "files spaced_done_controller (out_file spaced_done_controller ''10.0.0.5:9000'') = Some '' done ''"
  by (simp add: out_file_def spaced_done_controller_def path_join_def format_node_address_def)

lemma text_crlf:
  "strip (universal_newlines (''ok'' @ [CHR 0x0D, CHR 0x0A] @ ''42'' @ [CHR 0x0D, CHR 0x0A]))
     = ''ok'' @ [CHR 0x0A] @ ''42''"
  by (simp add: strip_def is_space_def)

lemma text_nbsp: "strip (universal_newlines [CHR 0xA0]) = []"
  by (simp add: strip_def is_space_def)

lemma text_spaced_done: "strip (universal_newlines '' done '') = ''done''"
  by (simp add: strip_def is_space_def)

text \<open>
  C7, amended.  Let the content of the result slot be read in text mode and stripped of
  leading and trailing whitespace.  When what remains is neither empty nor \<open>"done"\<close>, a
  poll returns it and leaves the slot empty, and a second poll right after it returns
  nothing and changes nothing.  When what remains is empty or \<open>"done"\<close> (a slot of
  whitespace only, or the sentinel between whitespace), the poll returns nothing and
  leaves the slot and the whole state as they were.
\<close>

theorem get_response_hands_off_once:
  assumes "files st (out_file st a) = Some raw"
  shows "(strip (universal_newlines raw) \<noteq> [] \<and> strip (universal_newlines raw) \<noteq> ''done'' \<longrightarrow>
            fst (get_response st a now) = Some (strip (universal_newlines raw))
            \<and> files (snd (get_response st a now)) (out_file st a) = Some []
            \<and> get_response (snd (get_response st a now)) a now'
                 = (None, snd (get_response st a now)))
         \<and> (strip (universal_newlines raw) = [] \<or> strip (universal_newlines raw) = ''done'' \<longrightarrow>
            get_response st a now = (None, st))"
  using get_response_real_slot [OF assms, of now now'] get_response_blank_slot [OF assms, of now]
  by blast

theorem get_response_hands_off_once_witness:
  "files crlf_controller (out_file crlf_controller ''10.0.0.5:9000'')
     = Some (''ok'' @ [CHR 0x0D, CHR 0x0A] @ ''42'' @ [CHR 0x0D, CHR 0x0A])
   \<and> fst (get_response crlf_controller ''10.0.0.5:9000'' 7) = Some (''ok'' @ [CHR 0x0A] @ ''42'')
   \<and> files (snd (get_response crlf_controller ''10.0.0.5:9000'' 7))
        (out_file crlf_controller ''10.0.0.5:9000'') = Some []
   \<and> get_response (snd (get_response crlf_controller ''10.0.0.5:9000'' 7)) ''10.0.0.5:9000'' 8
        = (None, snd (get_response crlf_controller ''10.0.0.5:9000'' 7))
   \<and> files nbsp_controller (out_file nbsp_controller ''10.0.0.5:9000'') = Some [CHR 0xA0]
   \<and> get_response nbsp_controller ''10.0.0.5:9000'' 7 = (None, nbsp_controller)
   \<and> files spaced_done_controller (out_file spaced_done_controller ''10.0.0.5:9000'')
        = Some '' done ''
   \<and> get_response spaced_done_controller ''10.0.0.5:9000'' 7 = (None, spaced_done_controller)"
proof -
  have c: "fst (get_response crlf_controller ''10.0.0.5:9000'' 7) = Some (''ok'' @ [CHR 0x0A] @ ''42'')
     \<and> files (snd (get_response crlf_controller ''10.0.0.5:9000'' 7))
          (out_file crlf_controller ''10.0.0.5:9000'') = Some []
     \<and> get_response (snd (get_response crlf_controller ''10.0.0.5:9000'' 7)) ''10.0.0.5:9000'' 8
          = (None, snd (get_response crlf_controller ''10.0.0.5:9000'' 7))"
    using get_response_hands_off_once [OF slot_crlf, of 7 8, unfolded text_crlf] by simp
  have n: "get_response nbsp_controller ''10.0.0.5:9000'' 7 = (None, nbsp_controller)"
    using get_response_hands_off_once [OF slot_nbsp, of 7 7, unfolded text_nbsp] by simp
  have d: "get_response spaced_done_controller ''10.0.0.5:9000'' 7 = (None, spaced_done_controller)"
    using get_response_hands_off_once [OF slot_spaced_done, of 7 7, unfolded text_spaced_done] by simp
  show ?thesis
    using c n d slot_crlf slot_nbsp slot_spaced_done by simp
qed

lemma last_100_short: "length xs \<le> 100 \<Longrightarrow> last_100 xs = xs"
  by (simp add: last_100_def)

lemma length_last_100: "length (last_100 xs) = min (length xs) 100"
  by (simp add: last_100_def)

lemma last_100_101: "length ys = 101 \<Longrightarrow> last_100 ys = drop 1 ys"
  by (simp add: last_100_def)

lemma last_100_snoc:
  "(if length (last_100 xs @ [e]) > 100 then last_100 (last_100 xs @ [e]) else last_100 xs @ [e])
     = last_100 (xs @ [e])"
proof (cases "length xs < 100")
  case True
  then show ?thesis by (simp add: last_100_def)
next
  case False
  then have "100 \<le> length xs" by simp
  then obtain k where k: "length xs = 100 + k"
    using le_Suc_ex by blast
  have l: "last_100 xs = drop k xs"
    unfolding last_100_def k by simp
  have len: "length (drop k xs) = 100"
    unfolding length_drop k by simp
  have "length (drop k xs @ [e]) = 101"
    unfolding length_append len by simp
  then have "last_100 (drop k xs @ [e]) = drop 1 (drop k xs @ [e])"
    by (rule last_100_101)
  also have "\<dots> = drop 1 (drop k xs) @ [e]"
    unfolding drop_append len by simp
  also have "\<dots> = drop (Suc k) xs @ [e]"
    unfolding drop_drop by simp
  finally have lhs: "last_100 (drop k xs @ [e]) = drop (Suc k) xs @ [e]" .
  have "last_100 (xs @ [e]) = drop (Suc k) (xs @ [e])"
    unfolding last_100_def length_append k by simp
  also have "\<dots> = drop (Suc k) xs @ [e]"
    unfolding drop_append k by simp
  finally have rhs: "last_100 (xs @ [e]) = drop (Suc k) xs @ [e]" .
  show ?thesis
    unfolding l lhs rhs length_append len by simp
qed

lemma get_response_None_responses:
  "get_response st a now = (None, st') \<Longrightarrow> responses st' = responses st"
  using read_from_node_responses [of st a]
  by (cases "read_from_node st a") (auto simp: get_response_def Let_def split: option.splits if_splits)

lemma get_response_Some_responses:
  assumes "get_response st a now = (Some r, st')"
  shows "responses st' = (responses st)(a \<mapsto>
           (let rs1 = get_all_responses st a @ [\<lparr>response_content = r, response_timestamp = now\<rparr>]
            in if length rs1 > 100 then last_100 rs1 else rs1))"
proof (cases "read_from_node st a")
  case (Pair res st1)
  have "res = Some r"
    using assms get_response_fst [of st a now] Pair by simp
  with Pair have rd: "read_from_node st a = (Some r, st1)" by simp
  have resp: "responses st1 = responses st"
    using read_from_node_responses [of st a] rd by simp
  have "get_all_responses st a = (case responses st1 a of None \<Rightarrow> [] | Some rs \<Rightarrow> rs)"
    by (simp add: get_all_responses_def resp split: option.splits)
  then show ?thesis
    using assms get_response_real [OF rd, of now] resp by (auto simp: Let_def)
qed

lemma observed_snoc:
  "observed (lg @ [(b, e)]) a = (if b = a then observed lg a @ [e] else observed lg a)"
  by (simp add: observed_def)

lemma channel_step_ledger:
  assumes "channel_step (st, lg) ev = (st', lg')"
    and "get_all_responses st a = last_100 (h @ observed lg a)"
  shows "get_all_responses st' a = last_100 (h @ observed lg' a)"
proof (cases ev)
  case (Node_writes b raw)
  then show ?thesis
    using assms by (auto simp: get_all_responses_def)
next
  case (Poll b now)
  show ?thesis
  proof (cases "get_response st b now")
    case (Pair res st2)
    show ?thesis
    proof (cases res)
      case None
      then have "responses st2 = responses st"
        using get_response_None_responses [of st b now st2] Pair by simp
      moreover have "st' = st2" "lg' = lg"
        using assms(1) Poll Pair None by simp_all
      ultimately show ?thesis
        using assms(2) by (simp add: get_all_responses_def)
    next
      case (Some r)
      define e where "e = \<lparr>response_content = r, response_timestamp = now\<rparr>"
      have st': "st' = st2" and lg': "lg' = lg @ [(b, e)]"
        using assms(1) Poll Pair Some by (simp_all add: e_def)
      have resp: "responses st2 = (responses st)(b \<mapsto>
           (if length (get_all_responses st b @ [e]) > 100
            then last_100 (get_all_responses st b @ [e]) else get_all_responses st b @ [e]))"
        using get_response_Some_responses [of st b now r st2] Pair Some
        by (simp add: e_def Let_def)
      show ?thesis
      proof (cases "b = a")
        case True
        have "get_all_responses st2 a =
                (if length (last_100 (h @ observed lg a) @ [e]) > 100
                 then last_100 (last_100 (h @ observed lg a) @ [e])
                 else last_100 (h @ observed lg a) @ [e])"
          using resp True assms(2) by (simp add: get_all_responses_def)
        also have "\<dots> = last_100 ((h @ observed lg a) @ [e])"
          by (rule last_100_snoc)
        finally show ?thesis
          using True by (simp add: st' lg' observed_snoc)
      next
        case False
        then have "get_all_responses st2 a = get_all_responses st a"
          using resp by (simp add: get_all_responses_def)
        then show ?thesis
          using False assms(2) by (simp add: st' lg' observed_snoc)
      qed
    qed
  qed
qed

lemma foldl_channel_ledger:
  assumes "foldl channel_step (st, lg) evs = (st', lg')"
    and "get_all_responses st a = last_100 (h @ observed lg a)"
  shows "get_all_responses st' a = last_100 (h @ observed lg' a)"
  using assms
proof (induction evs arbitrary: st lg)
  case Nil
  then show ?case by simp
next
  case (Cons ev evs)
  obtain st1 lg1 where s: "channel_step (st, lg) ev = (st1, lg1)"
    by (cases "channel_step (st, lg) ev")
  have "get_all_responses st1 a = last_100 (h @ observed lg1 a)"
    by (rule channel_step_ledger [OF s Cons.prems(2)])
  moreover have "foldl channel_step (st1, lg1) evs = (st', lg')"
    using Cons.prems(1) s by simp
  ultimately show ?case by (rule Cons.IH [rotated])
qed

text \<open>
  C4.  Take a controller whose ledger for an address holds at most 100 entries (a fresh
  controller holds none), and any trace of node writes and polls.  The entries recorded
  for the address are those of the ledger followed by what the polls of the address
  handed over, in that order.  Once more than 100 entries have been recorded,
  \<open>get_all_responses\<close> gives exactly the last 100 of them, oldest first.
\<close>

theorem ledger_keeps_last_100:
  assumes "length (get_all_responses st a) \<le> 100"
    and "run_channel st evs = (st', lg)"
    and "recorded = get_all_responses st a @ observed lg a"
    and "length recorded > 100"
  shows "get_all_responses st' a = drop (length recorded - 100) recorded
         \<and> length (get_all_responses st' a) = 100"
proof -
  have "get_all_responses st a = last_100 (get_all_responses st a @ observed [] a)"
    using assms(1) by (simp add: observed_def last_100_short)
  with assms(2) have "get_all_responses st' a = last_100 (get_all_responses st a @ observed lg a)"
    unfolding run_channel_def by (rule foldl_channel_ledger)
  then have "get_all_responses st' a = last_100 recorded"
    using assms(3) by simp
  then show ?thesis
    using assms(4) by (simp add: last_100_def)
qed

lemma full_ledger:
  "get_all_responses full_controller ''10.0.0.5:9000''
     = replicate 100 \<lparr>response_content = ''old'', response_timestamp = 1\<rparr>"
  by (simp add: get_all_responses_def full_controller_def)

lemma channel_step_poll_Some:
  "fst (get_response st a now) = Some r \<Longrightarrow>
     channel_step (st, lg) (Poll a now)
       = (snd (get_response st a now), lg @ [(a, \<lparr>response_content = r, response_timestamp = now\<rparr>)])"
  by (cases "get_response st a now") simp

lemma run_one_more:
  "snd (run_channel full_controller one_more)
     = [(''10.0.0.5:9000'', \<lparr>response_content = ''hello'', response_timestamp = 7\<rparr>)]"
proof -
  define st1 where "st1 = full_controller\<lparr>files := (files full_controller)
      (out_file full_controller ''10.0.0.5:9000'' \<mapsto> ''hello'' @ [CHR 0x0A])\<rparr>"
  have of: "out_file st1 ''10.0.0.5:9000'' = out_file full_controller ''10.0.0.5:9000''"
    by (rule out_file_nodes_dir) (simp add: st1_def)
  have f: "files st1 (out_file st1 ''10.0.0.5:9000'') = Some (''hello'' @ [CHR 0x0A])"
    unfolding of by (simp add: st1_def)
  have "fst (read_from_node st1 ''10.0.0.5:9000'') = Some ''hello''"
    using read_from_node_real [OF f, unfolded strip_hello] by simp
  then have "fst (get_response st1 ''10.0.0.5:9000'' 7) = Some ''hello''"
    by (simp only: get_response_fst)
  from channel_step_poll_Some [OF this, of "[]"] show ?thesis
    by (simp add: run_channel_def one_more_def st1_def)
qed

theorem ledger_keeps_last_100_witness:
  "length (get_all_responses full_controller ''10.0.0.5:9000'') \<le> 100
   \<and> length (get_all_responses full_controller ''10.0.0.5:9000''
               @ observed (snd (run_channel full_controller one_more)) ''10.0.0.5:9000'') = 101
   \<and> get_all_responses (fst (run_channel full_controller one_more)) ''10.0.0.5:9000''
        = replicate 99 \<lparr>response_content = ''old'', response_timestamp = 1\<rparr>
            @ [\<lparr>response_content = ''hello'', response_timestamp = 7\<rparr>]
   \<and> length (get_all_responses (fst (run_channel full_controller one_more)) ''10.0.0.5:9000'') = 100"
proof -
  have h1: "length (get_all_responses full_controller ''10.0.0.5:9000'') \<le> 100"
    by (simp add: full_ledger)
  have h2: "run_channel full_controller one_more
              = (fst (run_channel full_controller one_more), snd (run_channel full_controller one_more))"
    by simp
  have rec: "get_all_responses full_controller ''10.0.0.5:9000''
               @ observed (snd (run_channel full_controller one_more)) ''10.0.0.5:9000''
             = replicate 100 \<lparr>response_content = ''old'', response_timestamp = 1\<rparr>
                 @ [\<lparr>response_content = ''hello'', response_timestamp = 7\<rparr>]"
    by (simp add: full_ledger run_one_more observed_def)
  have h4: "length (replicate 100 \<lparr>response_content = ''old'', response_timestamp = 1\<rparr>
                 @ [\<lparr>response_content = ''hello'', response_timestamp = 7\<rparr>]) > 100"
    by simp
  from ledger_keeps_last_100 [OF h1 h2 rec [symmetric] h4] h1 rec
  show ?thesis by simp
qed

text \<open>
  C10 as stated fails: an unregistered username need not be usable as a file name.  In a
  users directory without sub-directories \<open>register_user\<close> with the username \<open>a/b\<close> finds
  no such user and then raises at \<open>open\<close>; so it does for a username with a NUL
  character.  Nothing is stored.
\<close>

theorem register_user_raises_counterexample:
  "\<not> user_exists no_subdirs no_users ''a/b''
   \<and> register_user rev no_subdirs no_users ''a/b'' ''secret'' ''10.0.0.5'' 9000 1
       = (Inl Bad_path, no_users)
   \<and> \<not> user_exists no_subdirs no_users [CHR ''a'', CHR 0x00]
   \<and> register_user rev no_subdirs no_users [CHR ''a'', CHR 0x00] ''secret'' ''10.0.0.5'' 9000 1
       = (Inl Bad_path, no_users)"
  by (simp add: user_exists_def register_user_def json_file_def fs_length_def no_subdirs_def
        Let_def)

text \<open>
  C10, amended.  When the path of the user's file leads to a place for a file (as it
  does for every plain file name) and the username is not registered, \<open>register_user\<close>
  succeeds, and \<open>authenticate\<close> with the same username and password on the resulting
  store succeeds: the stored hash and the hash computed at login are the same function
  of the password.
\<close>

theorem register_then_authenticate:
  assumes "json_file os username = File_at k" and "\<not> user_exists os um username"
  shows "fst (register_user H os um username password ip_addr prt now)
           = Inr (True, ''User registered successfully'')
         \<and> fst (authenticate H os (snd (register_user H os um username password ip_addr prt now))
                  username password now')
           = Inr (True, ''Authentication successful'')"
  using assms by (simp add: register_user_def authenticate_def user_exists_def Let_def)

theorem register_then_authenticate_witness:
  "json_file no_subdirs ''alice'' = File_at ''alice''
   \<and> \<not> user_exists no_subdirs no_users ''alice''
   \<and> fst (register_user rev no_subdirs no_users ''alice'' ''secret'' ''10.0.0.5'' 9000 1)
        = Inr (True, ''User registered successfully'')
   \<and> fst (authenticate rev no_subdirs
            (snd (register_user rev no_subdirs no_users ''alice'' ''secret'' ''10.0.0.5'' 9000 1))
            ''alice'' ''secret'' 2)
        = Inr (True, ''Authentication successful'')"
proof -
  have j: "json_file no_subdirs ''alice'' = File_at ''alice''"
    by (rule json_file_plain) (simp_all add: fs_length_def)
  have h: "\<not> user_exists no_subdirs no_users ''alice''"
    by (simp add: user_exists_def j no_users_def)
  from register_then_authenticate [OF j h, of rev "''secret''" "''10.0.0.5''" 9000 1 2] j h
  show ?thesis by simp
qed

end
